theory Spec2Isabelle
  imports Main
begin

section \<open>The AppleScript execution bridge of \<^verbatim>\<open>applescript_mcp/server.py\<close>\<close>

text \<open>
  The development embeds \<^verbatim>\<open>handle_call_tool\<close> (server.py, lines 180-229): the one
  handler that stages a script in a temporary file, runs \<^verbatim>\<open>/usr/bin/osascript\<close> on it
  under a timeout, turns the outcome into one block of text and removes the file.

  The handler is effectful. Its effects are made explicit:
  \<^item> the outcome of every library call (creating the temporary file, writing, flushing,
    running the process, unlinking, closing) is read from an environment \<open>env\<close>, so
    every theorem quantifies over all behaviours of the operating system;
  \<^item> the state it changes is a \<open>world\<close>: the paths that exist on disk, the open files
    that hold unflushed data, and the sequence of library calls made so far;
  \<^item> the interpreter process is given by what it does (the return code and the bytes
    it writes to its two streams, or that it outlives the timeout), and
    \<^verbatim>\<open>subprocess.run\<close> turns that into the text the handler receives;
  \<^item> a Python exception is a value: \<open>Inl\<close> of a sum type, carrying \<^verbatim>\<open>str(e)\<close>.

  Exceptions outside the class \<^verbatim>\<open>Exception\<close> (\<^verbatim>\<open>KeyboardInterrupt\<close>,
  \<^verbatim>\<open>SystemExit\<close>), which arrive asynchronously and which no call of the handler raises
  by itself, are not part of the model.
\<close>

subsection \<open>Python values\<close>

text \<open>
  The values of the \<^verbatim>\<open>arguments\<close> dictionary have type \<^verbatim>\<open>Any\<close>. A string is its UTF-8
  byte sequence, so that \<^verbatim>\<open>.encode('utf-8')\<close> is the identity on it (strings with lone
  surrogates, which have no UTF-8 encoding, are not represented). \<open>PyOther ty s\<close> is any
  other value (a float, a list, a dictionary), given by the name of its type and by
  what \<^verbatim>\<open>str\<close> prints for it.
\<close>

datatype pyval =
    PyNone
  | PyBool bool
  | PyInt int
  | PyStr string
  | PyOther string string

text \<open>The decimal digits of a natural number, as \<^verbatim>\<open>str\<close> prints an \<^verbatim>\<open>int\<close>.\<close>

definition digit_char :: "nat \<Rightarrow> char" where
  "digit_char d = char_of (48 + d)"

fun str_nat :: "nat \<Rightarrow> string" where
  "str_nat n = (if n < 10 then [digit_char n] else str_nat (n div 10) @ [digit_char (n mod 10)])"

declare str_nat.simps [simp del]

definition str_int :: "int \<Rightarrow> string" where
  "str_int i = (if i < 0 then CHR ''-'' # str_nat (nat (- i)) else str_nat (nat i))"

text \<open>\<^verbatim>\<open>str(v)\<close>, which an f-string applies to a value it interpolates.\<close>

fun py_str :: "pyval \<Rightarrow> string" where
  "py_str PyNone = ''None''"
| "py_str (PyBool b) = (if b then ''True'' else ''False'')"
| "py_str (PyInt i) = str_int i"
| "py_str (PyStr s) = s"
| "py_str (PyOther ty s) = s"

text \<open>\<^verbatim>\<open>type(v).__name__\<close>, which the message of an \<^verbatim>\<open>AttributeError\<close> quotes.\<close>

fun py_type_name :: "pyval \<Rightarrow> string" where
  "py_type_name PyNone = ''NoneType''"
| "py_type_name (PyBool b) = ''bool''"
| "py_type_name (PyInt i) = ''int''"
| "py_type_name (PyStr s) = ''str''"
| "py_type_name (PyOther ty s) = ty"

text \<open>
  \<^verbatim>\<open>v.encode('utf-8')\<close>: the bytes of a string; any other value has no such method and
  the call raises \<^verbatim>\<open>AttributeError\<close>.
\<close>

fun py_encode :: "pyval \<Rightarrow> string + string" where
  "py_encode (PyStr s) = Inr s"
| "py_encode v =
     Inl (CHR 0x27 # py_type_name v @ CHR 0x27 # '' object has no attribute '' @ CHR 0x27 # ''encode'' @ [CHR 0x27])"

text \<open>
  A dictionary with string keys is an association list read with \<open>map_of\<close>.
  \<^verbatim>\<open>d[k]\<close> raises \<^verbatim>\<open>KeyError\<close> on a missing key, \<^verbatim>\<open>d.get(k, default)\<close> does not.
\<close>

type_synonym pydict = "(string \<times> pyval) list"

definition dict_getitem :: "pydict \<Rightarrow> string \<Rightarrow> string + pyval" where
  "dict_getitem d k = (case map_of d k of None \<Rightarrow> Inl (CHR 0x27 # k @ [CHR 0x27]) | Some v \<Rightarrow> Inr v)"

definition dict_get :: "pydict \<Rightarrow> string \<Rightarrow> pyval \<Rightarrow> pyval" where
  "dict_get d k dflt = (case map_of d k of None \<Rightarrow> dflt | Some v \<Rightarrow> v)"

subsection \<open>Responses, exceptions, library calls\<close>

text \<open>
  The handler is declared to return a list of \<^verbatim>\<open>TextContent\<close>, \<^verbatim>\<open>ImageContent\<close> or
  \<^verbatim>\<open>EmbeddedResource\<close>; only the text of a \<^verbatim>\<open>TextContent\<close> is ever filled in.
\<close>

datatype content = TextContent string | ImageContent | EmbeddedResource

text \<open>
  What the interpreter process does when it is started with a command and a timeout: it
  exits with a return code, having written some bytes to its standard output and to its
  standard error; or it is still running when the timeout expires; or it cannot be
  started or waited for at all (the interpreter is missing, the timeout is not a number).
\<close>

datatype proc_outcome =
    ProcExited int string string
  | ProcExpired
  | ProcFailed string

text \<open>
  What \<^verbatim>\<open>subprocess.run(cmd, capture_output=True, text=True, timeout=t)\<close> hands to the
  handler: a \<^verbatim>\<open>CompletedProcess\<close> with the return code and the two captured streams
  as text, or the exception \<^verbatim>\<open>subprocess.TimeoutExpired\<close>, or another exception.
  The handler sees nothing else of the call: what becomes of the process itself once
  the timeout has expired is decided inside the library and has no counterpart here.
\<close>

datatype run_outcome =
    CompletedProcess int string string
  | RunTimeoutExpired
  | RunRaised string

text \<open>
  With \<^verbatim>\<open>text=True\<close> (line 206) the captured bytes are decoded and then every
  \<^verbatim>\<open>\r\n\<close> and every remaining \<^verbatim>\<open>\r\<close> becomes \<^verbatim>\<open>\n\<close>, as the library's
  \<^verbatim>\<open>data.replace("\r\n", "\n").replace("\r", "\n")\<close> does.
\<close>

fun replace_crlf :: "string \<Rightarrow> string" where
  "replace_crlf [] = []"
| "replace_crlf [c] = [c]"
| "replace_crlf (c # d # cs) =
     (if c = CHR 0x0D \<and> d = CHR 0x0A then CHR 0x0A # replace_crlf cs
      else c # replace_crlf (d # cs))"

definition replace_cr :: "string \<Rightarrow> string" where
  "replace_cr s = map (\<lambda>c. if c = CHR 0x0D then CHR 0x0A else c) s"

definition translate_newlines :: "string \<Rightarrow> string" where
  "translate_newlines s = replace_cr (replace_crlf s)"

text \<open>
  The exceptions the inner \<^verbatim>\<open>try\<close> tells apart: \<^verbatim>\<open>subprocess.TimeoutExpired\<close>, and
  any other \<^verbatim>\<open>Exception\<close> with its \<^verbatim>\<open>str(e)\<close>.
\<close>

datatype exn = TimeoutExpired | Exception string

datatype call =
    NamedTemporaryFile
  | Write string string
  | Flush string
  | SubprocessRun "string list" pyval
  | Unlink string
  | Close string

text \<open>
  The environment answers each library call: \<open>Inl\<close> or \<open>Some\<close> is the message of the
  exception the call raises. What the process does may depend on the command and on the
  timeout it was given. \<open>decode_res\<close> is the codec of the locale, which turns captured
  bytes into text or raises \<^verbatim>\<open>UnicodeDecodeError\<close>.
\<close>

record env =
  mkstemp_res :: "string + string"
  write_res :: "string option"
  flush_res :: "string option"
  proc_res :: "string list \<Rightarrow> pyval \<Rightarrow> proc_outcome"
  decode_res :: "string \<Rightarrow> string + string"
  unlink_res :: "string option"
  close_res :: "string option"

record world =
  files :: "string set"
  dirty :: "string set"
  calls :: "call list"

definition record_call :: "call \<Rightarrow> world \<Rightarrow> world" where
  "record_call c w = w\<lparr>calls := calls w @ [c]\<rparr>"

text \<open>
  \<^verbatim>\<open>tempfile.NamedTemporaryFile(suffix='.scpt', delete=False)\<close>: a new file with a fresh
  name, or an exception and no file.
\<close>

definition named_temporary_file :: "env \<Rightarrow> world \<Rightarrow> (string + string) \<times> world" where
  "named_temporary_file e w =
     (let w1 = record_call NamedTemporaryFile w in
      case mkstemp_res e of
        Inl msg \<Rightarrow> (Inl msg, w1)
      | Inr path \<Rightarrow> (Inr path, w1\<lparr>files := insert path (files w1)\<rparr>))"

text \<open>
  \<^verbatim>\<open>temp.write(data)\<close> on the buffered file: whether it raises or not, data may be left
  in the buffer.
\<close>

definition temp_write :: "env \<Rightarrow> string \<Rightarrow> string \<Rightarrow> world \<Rightarrow> string option \<times> world" where
  "temp_write e path data w =
     (let w1 = record_call (Write path data) w in
      (write_res e, w1\<lparr>dirty := insert path (dirty w1)\<rparr>))"

text \<open>\<^verbatim>\<open>temp.flush()\<close>: the buffer is empty once it has succeeded.\<close>

definition temp_flush :: "env \<Rightarrow> string \<Rightarrow> world \<Rightarrow> string option \<times> world" where
  "temp_flush e path w =
     (let w1 = record_call (Flush path) w in
      case flush_res e of
        Some msg \<Rightarrow> (Some msg, w1)
      | None \<Rightarrow> (None, w1\<lparr>dirty := dirty w1 - {path}\<rparr>))"

text \<open>
  The outcome of \<^verbatim>\<open>subprocess.run\<close> in text mode: the standard output is decoded
  first, then the standard error, and an exception of either decoding is raised in
  place of the result.
\<close>

definition run_res :: "env \<Rightarrow> string list \<Rightarrow> pyval \<Rightarrow> run_outcome" where
  "run_res e cmd timeout =
     (case proc_res e cmd timeout of
        ProcExpired \<Rightarrow> RunTimeoutExpired
      | ProcFailed msg \<Rightarrow> RunRaised msg
      | ProcExited returncode raw_out raw_err \<Rightarrow>
          (case decode_res e raw_out of
             Inl msg \<Rightarrow> RunRaised msg
           | Inr out \<Rightarrow>
          (case decode_res e raw_err of
             Inl msg \<Rightarrow> RunRaised msg
           | Inr err \<Rightarrow>
               CompletedProcess returncode (translate_newlines out) (translate_newlines err))))"

definition subprocess_run :: "env \<Rightarrow> string list \<Rightarrow> pyval \<Rightarrow> world \<Rightarrow> run_outcome \<times> world" where
  "subprocess_run e cmd timeout w = (run_res e cmd timeout, record_call (SubprocessRun cmd timeout) w)"

text \<open>\<^verbatim>\<open>os.unlink(path)\<close>: the path is gone once it has succeeded.\<close>

definition os_unlink :: "env \<Rightarrow> string \<Rightarrow> world \<Rightarrow> string option \<times> world" where
  "os_unlink e path w =
     (let w1 = record_call (Unlink path) w in
      case unlink_res e of
        Some msg \<Rightarrow> (Some msg, w1)
      | None \<Rightarrow> (None, w1\<lparr>files := files w1 - {path}\<rparr>))"

text \<open>
  Leaving the \<^verbatim>\<open>with\<close> block closes the file: what is still in the buffer is flushed
  and the descriptor is closed. Either step can raise, whatever the state of the
  buffer, and the exception leaves the block; the file is closed either way.
\<close>

definition temp_close :: "env \<Rightarrow> string \<Rightarrow> world \<Rightarrow> string option \<times> world" where
  "temp_close e path w =
     (let w1 = record_call (Close path) w in
      (close_res e, w1\<lparr>dirty := dirty w1 - {path}\<rparr>))"

subsection \<open>The handler\<close>

text \<open>
  Lines 197-214, the body of the inner \<^verbatim>\<open>try\<close>: encode and write the script, flush,
  run the interpreter on the file, and choose the text from the return code.
\<close>

definition try_body :: "env \<Rightarrow> string \<Rightarrow> pydict \<Rightarrow> pyval \<Rightarrow> world \<Rightarrow> (exn + content list) \<times> world" where
  "try_body e temp_path arguments timeout w =
     (case dict_getitem arguments ''code_snippet'' of
        Inl msg \<Rightarrow> (Inl (Exception msg), w)
      | Inr snippet \<Rightarrow>
     (case py_encode snippet of
        Inl msg \<Rightarrow> (Inl (Exception msg), w)
      | Inr data \<Rightarrow>
     (case temp_write e temp_path data w of
        (Some msg, w1) \<Rightarrow> (Inl (Exception msg), w1)
      | (None, w1) \<Rightarrow>
     (case temp_flush e temp_path w1 of
        (Some msg, w2) \<Rightarrow> (Inl (Exception msg), w2)
      | (None, w2) \<Rightarrow>
     (case subprocess_run e [''/usr/bin/osascript'', temp_path] timeout w2 of
        (RunTimeoutExpired, w3) \<Rightarrow> (Inl TimeoutExpired, w3)
      | (RunRaised msg, w3) \<Rightarrow> (Inl (Exception msg), w3)
      | (CompletedProcess returncode out err, w3) \<Rightarrow>
          if returncode \<noteq> 0
          then (Inr [TextContent (''AppleScript execution failed: '' @ err)], w3)
          else (Inr [TextContent out], w3))))))"

text \<open>Lines 215-218, the two \<^verbatim>\<open>except\<close> clauses: each returns a text.\<close>

definition try_except :: "env \<Rightarrow> string \<Rightarrow> pydict \<Rightarrow> pyval \<Rightarrow> world \<Rightarrow> content list \<times> world" where
  "try_except e temp_path arguments timeout w =
     (case try_body e temp_path arguments timeout w of
        (Inr r, w1) \<Rightarrow> (r, w1)
      | (Inl TimeoutExpired, w1) \<Rightarrow>
          ([TextContent (''AppleScript execution timed out after '' @ py_str timeout @ '' seconds'')], w1)
      | (Inl (Exception msg), w1) \<Rightarrow>
          ([TextContent (''Error executing AppleScript: '' @ msg)], w1))"

text \<open>
  Lines 219-224, the \<^verbatim>\<open>finally\<close> clause: unlink the file and pass over any exception
  of the unlink.
\<close>

definition finally_cleanup :: "env \<Rightarrow> string \<Rightarrow> world \<Rightarrow> world" where
  "finally_cleanup e temp_path w = snd (os_unlink e temp_path w)"

text \<open>
  Lines 194-224, the \<^verbatim>\<open>with\<close> statement: an exception of the file's creation or of its
  close leaves the statement; otherwise the value returned inside is returned.
\<close>

definition with_tempfile :: "env \<Rightarrow> pydict \<Rightarrow> pyval \<Rightarrow> world \<Rightarrow> (string + content list) \<times> world" where
  "with_tempfile e arguments timeout w =
     (case named_temporary_file e w of
        (Inl msg, w1) \<Rightarrow> (Inl msg, w1)
      | (Inr temp_path, w1) \<Rightarrow>
          (let (r, w2) = try_except e temp_path arguments timeout w1;
               w3 = finally_cleanup e temp_path w2
           in case temp_close e temp_path w3 of
                (Some msg, w4) \<Rightarrow> (Inl msg, w4)
              | (None, w4) \<Rightarrow> (Inr r, w4)))"

text \<open>
  Lines 186-226, the body of the outer \<^verbatim>\<open>try\<close>. \<^verbatim>\<open>not arguments\<close> holds of \<^verbatim>\<open>None\<close> and
  of the empty dictionary.
\<close>

definition dispatch :: "env \<Rightarrow> string \<Rightarrow> pydict option \<Rightarrow> world \<Rightarrow> (string + content list) \<times> world" where
  "dispatch e name arguments w =
     (if name = ''applescript_execute'' then
        (case arguments of
           None \<Rightarrow> (Inl ''Missing code_snippet argument'', w)
         | Some args \<Rightarrow>
             if args = [] \<or> map_of args ''code_snippet'' = None
             then (Inl ''Missing code_snippet argument'', w)
             else with_tempfile e args (dict_get args ''timeout'' (PyInt 60)) w)
      else (Inl (''Unknown tool: '' @ name), w))"

text \<open>Lines 185-229: the outer \<^verbatim>\<open>except Exception\<close> turns any exception into a text.\<close>

definition handle_call_tool :: "env \<Rightarrow> string \<Rightarrow> pydict option \<Rightarrow> world \<Rightarrow> content list \<times> world" where
  "handle_call_tool e name arguments w =
     (case dispatch e name arguments w of
        (Inr r, w1) \<Rightarrow> (r, w1)
      | (Inl msg, w1) \<Rightarrow> ([TextContent (''Error: '' @ msg)], w1))"

subsection \<open>Reading decimal digits back\<close>

text \<open>
  The value of a string of decimal digits; it is used to state that \<open>str_nat\<close> prints
  the number it is given.
\<close>

definition digit_val :: "char \<Rightarrow> nat" where
  "digit_val c = of_char c - 48"

definition nat_of_digits :: "string \<Rightarrow> nat" where
  "nat_of_digits ds = foldl (\<lambda>a c. 10 * a + digit_val c) 0 ds"

subsection \<open>Concrete environments\<close>

text \<open>An operating system in which every call succeeds and the script prints \<open>4\<close>.\<close>

definition env_ok :: env where
  "env_ok = \<lparr> mkstemp_res = Inr ''/tmp/tmpab12.scpt'', write_res = None, flush_res = None,
              proc_res = (\<lambda>cmd timeout. ProcExited 0 ''4'' ''''),
              decode_res = (\<lambda>raw. Inr raw),
              unlink_res = None, close_res = None \<rparr>"

definition world0 :: world where
  "world0 = \<lparr> files = {}, dirty = {}, calls = [] \<rparr>"

text \<open>
  The same operating system with a script that prints nothing, with a script that fails,
  with a script that runs out of time, and with a full disk on which the file can be
  neither flushed nor removed.
\<close>

definition env_silent :: env where
  "env_silent = env_ok\<lparr>proc_res := (\<lambda>cmd timeout. ProcExited 0 '''' '''')\<rparr>"

definition env_failing :: env where
  "env_failing = env_ok\<lparr>proc_res := (\<lambda>cmd timeout. ProcExited 1 '''' ''syntax error'')\<rparr>"

definition env_slow :: env where
  "env_slow = env_ok\<lparr>proc_res := (\<lambda>cmd timeout. ProcExpired)\<rparr>"

definition env_disk_full :: env where
  "env_disk_full = env_ok\<lparr>flush_res := Some ''[Errno 28] No space left on device'',
                            close_res := Some ''[Errno 28] No space left on device'',
                            unlink_res := Some ''[Errno 13] Permission denied''\<rparr>"

text \<open>
  An operating system in which every call succeeds and the script writes the three
  lines \<open>a\<close>, \<open>b\<close>, \<open>c\<close>, ending the first with \<^verbatim>\<open>\r\n\<close> and the second with \<^verbatim>\<open>\r\<close>.
\<close>

definition crlf_output :: string where
  "crlf_output = [CHR ''a'', CHR 0x0D, CHR 0x0A, CHR ''b'', CHR 0x0D, CHR ''c'']"

definition env_crlf :: env where
  "env_crlf = env_ok\<lparr>proc_res := (\<lambda>cmd timeout. ProcExited 0 crlf_output '''')\<rparr>"

text \<open>
  An operating system in which every call succeeds but the close of the temporary file.
\<close>

definition env_close_fails :: env where
  "env_close_fails = env_ok\<lparr>close_res := Some ''[Errno 5] Input/output error''\<rparr>"

section \<open>Auxiliary facts\<close>

subsection \<open>Decimal digits\<close>

lemma digit_val_digit_char: "d < 10 \<Longrightarrow> digit_val (digit_char d) = d"
  by (simp add: digit_val_def digit_char_def)

lemma str_nat_decimal: "nat_of_digits (str_nat n) = n"
proof (induction n rule: str_nat.induct)
  case (1 n)
  show ?case
  proof (cases "n < 10")
    case True
    then show ?thesis
      by (simp add: str_nat.simps [of n] nat_of_digits_def digit_val_digit_char)
  next
    case False
    with 1 have "nat_of_digits (str_nat (n div 10)) = n div 10" by simp
    with False show ?thesis
      by (simp add: str_nat.simps [of n] nat_of_digits_def digit_val_digit_char)
  qed
qed

lemma str_int_examples: "str_int 5 = ''5''" "str_int 60 = ''60''" "str_int (- 5) = ''-5''"
  by code_simp+

subsection \<open>Text mode\<close>

lemma replace_crlf_no_cr: "CHR 0x0D \<notin> set s \<Longrightarrow> replace_crlf s = s"
  by (induction s rule: replace_crlf.induct) auto

lemma replace_cr_no_cr: "CHR 0x0D \<notin> set s \<Longrightarrow> replace_cr s = s"
  by (induction s) (auto simp add: replace_cr_def)

lemma translate_newlines_no_cr: "CHR 0x0D \<notin> set s \<Longrightarrow> translate_newlines s = s"
  by (simp add: translate_newlines_def replace_crlf_no_cr replace_cr_no_cr)

lemma translate_newlines_examples:
  "translate_newlines '''' = ''''"
  "translate_newlines ''4'' = ''4''"
  "translate_newlines ''syntax error'' = ''syntax error''"
  "translate_newlines crlf_output = [CHR ''a'', CHR 0x0A, CHR ''b'', CHR 0x0A, CHR ''c'']"
  by (simp_all add: translate_newlines_def replace_cr_def crlf_output_def)

lemma run_res_unlink_indep: "run_res (e\<lparr>unlink_res := u\<rparr>) cmd t = run_res e cmd t"
  by (simp add: run_res_def cong: proc_outcome.case_cong sum.case_cong)

lemma run_res_exited:
  assumes "proc_res e cmd t = ProcExited rc raw_out raw_err"
    and "decode_res e raw_out = Inr out" and "decode_res e raw_err = Inr err"
  shows "run_res e cmd t = CompletedProcess rc (translate_newlines out) (translate_newlines err)"
  using assms by (simp add: run_res_def)

lemma run_res_examples:
  "run_res env_ok cmd t = CompletedProcess 0 ''4'' ''''"
  "run_res env_silent cmd t = CompletedProcess 0 '''' ''''"
  "run_res env_failing cmd t = CompletedProcess 1 '''' ''syntax error''"
  "run_res env_slow cmd t = RunTimeoutExpired"
  "run_res env_crlf cmd t = CompletedProcess 0 [CHR ''a'', CHR 0x0A, CHR ''b'', CHR 0x0A, CHR ''c''] ''''"
  by (simp_all add: run_res_def env_ok_def env_silent_def env_failing_def env_slow_def env_crlf_def
        translate_newlines_examples)

subsection \<open>The library calls, the inner \<^verbatim>\<open>try\<close> and the \<^verbatim>\<open>with\<close> statement\<close>


lemmas op_defs = temp_close_def os_unlink_def subprocess_run_def temp_flush_def temp_write_def
  named_temporary_file_def record_call_def

lemma try_body_files: "files (snd (try_body e p a t w)) = files w"
  by (simp add: try_body_def op_defs Let_def split: sum.splits option.splits run_outcome.splits)

lemma try_body_calls:
  "\<exists>cs. calls (snd (try_body e p a t w)) = calls w @ cs \<and>
        (\<forall>cmd t'. SubprocessRun cmd t' \<in> set cs \<longrightarrow> cmd = [''/usr/bin/osascript'', p] \<and> t' = t)"
  by (simp add: try_body_def op_defs Let_def split: sum.splits option.splits run_outcome.splits)


lemma try_body_unlink_indep:
  "try_body (e\<lparr>unlink_res := u\<rparr>) p a t w = try_body e p a t w"
  by (simp add: try_body_def op_defs Let_def run_res_unlink_indep
        cong: sum.case_cong option.case_cong prod.case_cong run_outcome.case_cong)

lemma try_except_files: "files (snd (try_except e p a t w)) = files w"
  using try_body_files [of e p a t w]
  by (cases "try_body e p a t w") (auto simp add: try_except_def split: sum.splits exn.splits)

lemma try_except_calls:
  "\<exists>cs. calls (snd (try_except e p a t w)) = calls w @ cs \<and>
        (\<forall>cmd t'. SubprocessRun cmd t' \<in> set cs \<longrightarrow> cmd = [''/usr/bin/osascript'', p] \<and> t' = t)"
  using try_body_calls [of e p a t w]
  by (cases "try_body e p a t w") (auto simp add: try_except_def split: sum.splits exn.splits)

lemma try_except_unlink_indep:
  "try_except (e\<lparr>unlink_res := u\<rparr>) p a t w = try_except e p a t w"
  by (simp add: try_except_def try_body_unlink_indep)



lemma finally_cleanup_dirty: "dirty (finally_cleanup e p w) = dirty w"
  by (simp add: finally_cleanup_def op_defs Let_def split: option.splits)

lemma finally_cleanup_calls: "calls (finally_cleanup e p w) = calls w @ [Unlink p]"
  by (simp add: finally_cleanup_def op_defs Let_def split: option.splits)

lemma finally_cleanup_files:
  "files (finally_cleanup e p w) = (case unlink_res e of None \<Rightarrow> files w - {p} | Some m \<Rightarrow> files w)"
  by (simp add: finally_cleanup_def op_defs Let_def split: option.splits)

lemma temp_close_world:
  "calls (snd (temp_close e p w)) = calls w @ [Close p]"
  "files (snd (temp_close e p w)) = files w"
  by (simp_all add: op_defs Let_def)

lemma temp_close_result: "fst (temp_close e p w) = close_res e"
  by (simp add: op_defs Let_def)

lemma with_tempfile_created:
  assumes "mkstemp_res e = Inr p"
  shows "with_tempfile e a t w =
     (let w1 = (record_call NamedTemporaryFile w)\<lparr>files := insert p (files w)\<rparr>;
          w3 = finally_cleanup e p (snd (try_except e p a t w1))
      in case fst (temp_close e p w3) of
           Some msg \<Rightarrow> (Inl msg, snd (temp_close e p w3))
         | None \<Rightarrow> (Inr (fst (try_except e p a t w1)), snd (temp_close e p w3)))"
  using assms
  by (simp add: with_tempfile_def named_temporary_file_def record_call_def Let_def
        split: prod.splits option.splits)

lemma with_tempfile_not_created:
  "mkstemp_res e = Inl msg \<Longrightarrow>
   with_tempfile e a t w = (Inl msg, record_call NamedTemporaryFile w)"
  by (simp add: with_tempfile_def named_temporary_file_def Let_def)

lemma with_tempfile_calls:
  assumes "mkstemp_res e = Inr p"
  shows "\<exists>cs. calls (snd (with_tempfile e a t w)) = calls w @ NamedTemporaryFile # cs @ [Unlink p, Close p] \<and>
          (\<forall>cmd t'. SubprocessRun cmd t' \<in> set cs \<longrightarrow> cmd = [''/usr/bin/osascript'', p] \<and> t' = t)"
proof -
  define w1 where "w1 = (record_call NamedTemporaryFile w)\<lparr>files := insert p (files w)\<rparr>"
  obtain cs where cs: "calls (snd (try_except e p a t w1)) = calls w1 @ cs"
    "\<forall>cmd t'. SubprocessRun cmd t' \<in> set cs \<longrightarrow> cmd = [''/usr/bin/osascript'', p] \<and> t' = t"
    using try_except_calls [of e p a t w1] by blast
  have "calls w1 = calls w @ [NamedTemporaryFile]"
    by (simp add: w1_def record_call_def)
  with cs(1) have "calls (snd (with_tempfile e a t w)) = calls w @ NamedTemporaryFile # cs @ [Unlink p, Close p]"
    by (simp add: with_tempfile_created [OF assms] Let_def w1_def [symmetric]
          temp_close_world finally_cleanup_calls split: option.splits)
  with cs(2) show ?thesis by blast
qed

lemma with_tempfile_files:
  assumes "mkstemp_res e = Inr p"
  shows "files (snd (with_tempfile e a t w)) =
           (case unlink_res e of None \<Rightarrow> files w - {p} | Some m \<Rightarrow> insert p (files w))"
  by (simp add: with_tempfile_created [OF assms] Let_def temp_close_world finally_cleanup_files
        try_except_files record_call_def split: option.splits)

lemma with_tempfile_unlink_indep:
  "fst (with_tempfile (e\<lparr>unlink_res := u\<rparr>) a t w) = fst (with_tempfile e a t w)"
proof (cases "mkstemp_res e")
  case (Inl msg)
  then show ?thesis by (simp add: with_tempfile_not_created)
next
  case (Inr p)
  then have Inr': "mkstemp_res (e\<lparr>unlink_res := u\<rparr>) = Inr p" by simp
  show ?thesis
    by (simp add: with_tempfile_created [OF Inr] with_tempfile_created [OF Inr'] Let_def
          try_except_unlink_indep temp_close_result split: option.splits)
qed


lemma dispatch_present:
  "map_of args ''code_snippet'' = Some v \<Longrightarrow>
   dispatch e ''applescript_execute'' (Some args) w = with_tempfile e args (dict_get args ''timeout'' (PyInt 60)) w"
  by (auto simp add: dispatch_def)

lemma handle_call_tool_calls:
  "calls (snd (handle_call_tool e name arguments w)) = calls (snd (dispatch e name arguments w))"
  "files (snd (handle_call_tool e name arguments w)) = files (snd (dispatch e name arguments w))"
  by (simp_all add: handle_call_tool_def split: prod.splits sum.splits)

subsection \<open>The handler on a staged script\<close>

lemma staged_result:
  assumes "map_of args ''code_snippet'' = Some (PyStr s)"
    and "mkstemp_res e = Inr p" and "write_res e = None" and "flush_res e = None"
  shows "handle_call_tool e ''applescript_execute'' (Some args) w =
     ((case close_res e of
         Some m \<Rightarrow> [TextContent (''Error: '' @ m)]
       | None \<Rightarrow>
      (case run_res e [''/usr/bin/osascript'', p] (dict_get args ''timeout'' (PyInt 60)) of
         CompletedProcess rc out err \<Rightarrow>
           if rc \<noteq> 0 then [TextContent (''AppleScript execution failed: '' @ err)] else [TextContent out]
       | RunTimeoutExpired \<Rightarrow>
           [TextContent (''AppleScript execution timed out after '' @ py_str (dict_get args ''timeout'' (PyInt 60)) @ '' seconds'')]
       | RunRaised msg \<Rightarrow> [TextContent (''Error executing AppleScript: '' @ msg)])),
      w\<lparr>files := (case unlink_res e of None \<Rightarrow> files w - {p} | Some m \<Rightarrow> insert p (files w)),
        dirty := dirty w - {p},
        calls := calls w @ [NamedTemporaryFile, Write p s, Flush p,
                   SubprocessRun [''/usr/bin/osascript'', p] (dict_get args ''timeout'' (PyInt 60)),
                   Unlink p, Close p]\<rparr>)"
proof -
  from assms(1) have ne: "args \<noteq> []" by auto
  show ?thesis
    using assms ne
    by (cases "run_res e [''/usr/bin/osascript'', p] (dict_get args ''timeout'' (PyInt 60))";
        cases "unlink_res e"; cases "close_res e")
       (simp_all add: handle_call_tool_def dispatch_def with_tempfile_def try_except_def try_body_def
          finally_cleanup_def op_defs dict_getitem_def)
qed

lemma staged_calls:
  assumes "map_of args ''code_snippet'' = Some (PyStr s)"
    and "mkstemp_res e = Inr p" and "write_res e = None" and "flush_res e = None"
  shows "calls (snd (handle_call_tool e ''applescript_execute'' (Some args) w)) =
     calls w @ [NamedTemporaryFile, Write p s, Flush p,
                SubprocessRun [''/usr/bin/osascript'', p] (dict_get args ''timeout'' (PyInt 60)),
                Unlink p, Close p]"
  by (simp add: staged_result [OF assms])

lemma staged_response:
  assumes "map_of args ''code_snippet'' = Some (PyStr s)"
    and "mkstemp_res e = Inr p" and "write_res e = None" and "flush_res e = None"
    and "close_res e = None"
  shows "fst (handle_call_tool e ''applescript_execute'' (Some args) w) =
      (case run_res e [''/usr/bin/osascript'', p] (dict_get args ''timeout'' (PyInt 60)) of
         CompletedProcess rc out err \<Rightarrow>
           if rc \<noteq> 0 then [TextContent (''AppleScript execution failed: '' @ err)] else [TextContent out]
       | RunTimeoutExpired \<Rightarrow>
           [TextContent (''AppleScript execution timed out after '' @ py_str (dict_get args ''timeout'' (PyInt 60)) @ '' seconds'')]
       | RunRaised msg \<Rightarrow> [TextContent (''Error executing AppleScript: '' @ msg)])"
  by (simp add: staged_result [OF assms(1-4)] assms(5))

lemma handle_call_tool_response:
  "fst (handle_call_tool e name arguments w) =
     (case fst (dispatch e name arguments w) of
        Inl msg \<Rightarrow> [TextContent (''Error: '' @ msg)]
      | Inr r \<Rightarrow> r)"
  by (simp add: handle_call_tool_def split: prod.splits sum.splits)

lemma dispatch_calls:
  "\<exists>cs. calls (snd (dispatch e name arguments w)) = calls w @ cs \<and>
        (\<forall>cmd t. SubprocessRun cmd t \<in> set cs \<longrightarrow>
           (\<exists>args. arguments = Some args \<and> t = dict_get args ''timeout'' (PyInt 60)))"
proof (cases "name = ''applescript_execute'' \<and> (\<exists>args. arguments = Some args \<and> map_of args ''code_snippet'' \<noteq> None)")
  case False
  then have "snd (dispatch e name arguments w) = w"
    by (auto simp add: dispatch_def split: option.splits)
  then show ?thesis by simp
next
  case True
  then obtain args v where args: "name = ''applescript_execute''" "arguments = Some args"
    "map_of args ''code_snippet'' = Some v"
    by auto
  show ?thesis
  proof (cases "mkstemp_res e")
    case (Inl msg)
    then show ?thesis
      by (simp add: args dispatch_present [OF args(3)] with_tempfile_not_created record_call_def)
  next
    case (Inr p)
    from with_tempfile_calls [OF Inr, of args "dict_get args ''timeout'' (PyInt 60)" w]
    obtain cs where cs: "calls (snd (with_tempfile e args (dict_get args ''timeout'' (PyInt 60)) w))
          = calls w @ NamedTemporaryFile # cs @ [Unlink p, Close p]"
      "\<forall>cmd t'. SubprocessRun cmd t' \<in> set cs \<longrightarrow>
          cmd = [''/usr/bin/osascript'', p] \<and> t' = dict_get args ''timeout'' (PyInt 60)"
      by blast
    show ?thesis
      using cs
      by (auto simp add: args dispatch_present [OF args(3)]
            intro!: exI [of _ "NamedTemporaryFile # cs @ [Unlink p, Close p]"])
  qed
qed


section \<open>Properties\<close>

text \<open>
  Claim C1. Whenever the request names \<^verbatim>\<open>applescript_execute\<close>, carries a
  \<^verbatim>\<open>code_snippet\<close> (of any type) and the temporary file \<open>p\<close> has been created, the
  handler calls \<^verbatim>\<open>os.unlink\<close> on \<open>p\<close> after everything it does in the \<^verbatim>\<open>try\<close> block
  and just before the file is closed, whatever happened in between (return code 0 or
  not, timeout, an exception of any call); if the unlink succeeds the file no longer
  exists when the handler returns; and the response is the same whatever the outcome
  of the unlink, whose exception the bare \<^verbatim>\<open>except\<close> passes over.
\<close>

theorem staged_script_always_unlinked:
  assumes "map_of args ''code_snippet'' = Some v" and "mkstemp_res e = Inr p"
  shows "(\<exists>cs. calls (snd (handle_call_tool e ''applescript_execute'' (Some args) w))
               = calls w @ NamedTemporaryFile # cs @ [Unlink p, Close p])
       \<and> (unlink_res e = None \<longrightarrow> p \<notin> files (snd (handle_call_tool e ''applescript_execute'' (Some args) w)))
       \<and> (\<forall>u. fst (handle_call_tool (e\<lparr>unlink_res := u\<rparr>) ''applescript_execute'' (Some args) w)
             = fst (handle_call_tool e ''applescript_execute'' (Some args) w))"
proof (intro conjI allI)
  show "\<exists>cs. calls (snd (handle_call_tool e ''applescript_execute'' (Some args) w))
               = calls w @ NamedTemporaryFile # cs @ [Unlink p, Close p]"
    using with_tempfile_calls [OF assms(2), of args "dict_get args ''timeout'' (PyInt 60)" w]
    by (auto simp add: handle_call_tool_calls dispatch_present [OF assms(1)])
  show "unlink_res e = None \<longrightarrow> p \<notin> files (snd (handle_call_tool e ''applescript_execute'' (Some args) w))"
    by (simp add: handle_call_tool_calls dispatch_present [OF assms(1)] with_tempfile_files [OF assms(2)])
  fix u
  show "fst (handle_call_tool (e\<lparr>unlink_res := u\<rparr>) ''applescript_execute'' (Some args) w)
          = fst (handle_call_tool e ''applescript_execute'' (Some args) w)"
    using with_tempfile_unlink_indep [where e = e and u = u and a = args and w = w
        and t = "dict_get args ''timeout'' (PyInt 60)"]
    by (simp add: handle_call_tool_response dispatch_present [OF assms(1)])
qed

theorem staged_script_always_unlinked_witness:
  "(\<exists>cs. calls (snd (handle_call_tool env_disk_full ''applescript_execute'' (Some [(''code_snippet'', PyStr ''return 2+2'')]) world0))
               = calls world0 @ NamedTemporaryFile # cs @ [Unlink ''/tmp/tmpab12.scpt'', Close ''/tmp/tmpab12.scpt''])
   \<and> fst (handle_call_tool (env_disk_full\<lparr>unlink_res := None\<rparr>) ''applescript_execute'' (Some [(''code_snippet'', PyStr ''return 2+2'')]) world0)
     = fst (handle_call_tool env_disk_full ''applescript_execute'' (Some [(''code_snippet'', PyStr ''return 2+2'')]) world0)
   \<and> ''/tmp/tmpab12.scpt'' \<notin> files (snd (handle_call_tool env_ok ''applescript_execute'' (Some [(''code_snippet'', PyStr ''return 2+2'')]) world0))"
  using staged_script_always_unlinked [of "[(''code_snippet'', PyStr ''return 2+2'')]" "PyStr ''return 2+2''" env_disk_full "''/tmp/tmpab12.scpt''" world0]
    staged_script_always_unlinked [of "[(''code_snippet'', PyStr ''return 2+2'')]" "PyStr ''return 2+2''" env_ok "''/tmp/tmpab12.scpt''" world0]
  by (simp add: env_disk_full_def env_ok_def)

text \<open>
  Claim C2, as stated, fails for the empty string. The guard of line 187 asks whether
  the key \<^verbatim>\<open>code_snippet\<close> is present, not whether its value is empty: for the request
  \<^verbatim>\<open>{"code_snippet": ""}\<close> the handler creates the temporary file, runs
  \<^verbatim>\<open>/usr/bin/osascript\<close> on it with the default timeout and returns what the process
  printed.
\<close>

theorem empty_script_is_run:
  "handle_call_tool env_silent ''applescript_execute'' (Some [(''code_snippet'', PyStr '''')]) world0
     = ([TextContent ''''],
        \<lparr>files = {}, dirty = {},
         calls = [NamedTemporaryFile, Write ''/tmp/tmpab12.scpt'' '''', Flush ''/tmp/tmpab12.scpt'',
                  SubprocessRun [''/usr/bin/osascript'', ''/tmp/tmpab12.scpt''] (PyInt 60),
                  Unlink ''/tmp/tmpab12.scpt'', Close ''/tmp/tmpab12.scpt'']\<rparr>)"
  by (simp add: handle_call_tool_def dispatch_def with_tempfile_def try_except_def try_body_def
        finally_cleanup_def op_defs dict_getitem_def dict_get_def env_silent_def env_ok_def world0_def
        run_res_def translate_newlines_def replace_cr_def)

text \<open>
  Claim C2, amended. When \<^verbatim>\<open>arguments\<close> is \<^verbatim>\<open>None\<close>, is empty, or has no key
  \<^verbatim>\<open>code_snippet\<close>, the handler returns the one text
  \<^verbatim>\<open>Error: Missing code_snippet argument\<close> and makes no library call: no temporary file
  is created and no process is started.
\<close>

theorem missing_code_snippet_rejected:
  assumes "arguments = None \<or> (\<exists>args. arguments = Some args \<and> map_of args ''code_snippet'' = None)"
  shows "handle_call_tool e ''applescript_execute'' arguments w
           = ([TextContent ''Error: Missing code_snippet argument''], w)"
  using assms by (auto simp add: handle_call_tool_def dispatch_def)

theorem missing_code_snippet_rejected_witness:
  "handle_call_tool env_ok ''applescript_execute'' (Some [(''timeout'', PyInt 5)]) world0
     = ([TextContent ''Error: Missing code_snippet argument''], world0)
   \<and> handle_call_tool env_ok ''applescript_execute'' None world0
     = ([TextContent ''Error: Missing code_snippet argument''], world0)
   \<and> handle_call_tool env_ok ''applescript_execute'' (Some []) world0
     = ([TextContent ''Error: Missing code_snippet argument''], world0)"
  using missing_code_snippet_rejected [of "Some [(''timeout'', PyInt 5)]" env_ok world0]
    missing_code_snippet_rejected [of None env_ok world0]
    missing_code_snippet_rejected [of "Some []" env_ok world0]
  by simp

text \<open>
  Claim C3, as stated, fails: the text returned is not always exactly what the process
  wrote. The handler runs the process with \<^verbatim>\<open>text=True\<close> (line 206), so what it
  receives as \<^verbatim>\<open>result.stdout\<close> has every \<^verbatim>\<open>\r\n\<close> and every \<^verbatim>\<open>\r\<close> replaced by
  \<^verbatim>\<open>\n\<close>. A script that exits with code 0 after writing \<^verbatim>\<open>a\r\nb\rc\<close> is answered with
  \<^verbatim>\<open>a\nb\nc\<close>.
\<close>

theorem stdout_newlines_translated:
  "proc_res env_crlf [''/usr/bin/osascript'', ''/tmp/tmpab12.scpt''] (PyInt 60)
     = ProcExited 0 [CHR ''a'', CHR 0x0D, CHR 0x0A, CHR ''b'', CHR 0x0D, CHR ''c''] ''''
   \<and> fst (handle_call_tool env_crlf ''applescript_execute''
            (Some [(''code_snippet'', PyStr ''get the clipboard'')]) world0)
     = [TextContent [CHR ''a'', CHR 0x0A, CHR ''b'', CHR 0x0A, CHR ''c'']]"
proof -
  have "map_of [(''code_snippet'', PyStr ''get the clipboard'')] ''code_snippet''
          = Some (PyStr ''get the clipboard'')"
    and "mkstemp_res env_crlf = Inr ''/tmp/tmpab12.scpt''"
    and "write_res env_crlf = None" and "flush_res env_crlf = None"
    and "close_res env_crlf = None"
    by (simp_all add: env_crlf_def env_ok_def)
  from staged_response [OF this, of world0] show ?thesis
    by (simp add: run_res_examples) (simp add: env_crlf_def crlf_output_def)
qed

text \<open>
  Claim C3, amended. For a request whose \<^verbatim>\<open>code_snippet\<close> is a string, with the
  temporary file created, written, flushed and closed without error, if the interpreter
  process exits with code 0 and its two streams can be decoded, then the response is
  one text block whose text is the decoded standard output with every \<^verbatim>\<open>\r\n\<close> and
  every \<^verbatim>\<open>\r\<close> replaced by \<^verbatim>\<open>\n\<close>; it is exactly the decoded standard output when that
  contains no \<^verbatim>\<open>\r\<close>.
\<close>

theorem exit_zero_returns_captured_stdout:
  assumes "map_of args ''code_snippet'' = Some (PyStr s)"
    and "mkstemp_res e = Inr p" and "write_res e = None" and "flush_res e = None"
    and "close_res e = None"
    and "proc_res e [''/usr/bin/osascript'', p] (dict_get args ''timeout'' (PyInt 60))
           = ProcExited 0 raw_out raw_err"
    and "decode_res e raw_out = Inr out" and "decode_res e raw_err = Inr err"
  shows "fst (handle_call_tool e ''applescript_execute'' (Some args) w)
           = [TextContent (translate_newlines out)]
       \<and> (CHR 0x0D \<notin> set out \<longrightarrow>
            fst (handle_call_tool e ''applescript_execute'' (Some args) w) = [TextContent out])"
  by (simp add: staged_response [OF assms(1-5)] run_res_exited [OF assms(6-8)]
        translate_newlines_no_cr)

theorem exit_zero_returns_captured_stdout_witness:
  "fst (handle_call_tool env_ok ''applescript_execute''
          (Some [(''code_snippet'', PyStr ''return 2+2''), (''timeout'', PyInt 5)]) world0) = [TextContent ''4'']"
proof -
  have "map_of [(''code_snippet'', PyStr ''return 2+2''), (''timeout'', PyInt 5)] ''code_snippet''
          = Some (PyStr ''return 2+2'')"
    and "mkstemp_res env_ok = Inr ''/tmp/tmpab12.scpt''"
    and "write_res env_ok = None" and "flush_res env_ok = None" and "close_res env_ok = None"
    and "proc_res env_ok [''/usr/bin/osascript'', ''/tmp/tmpab12.scpt'']
           (dict_get [(''code_snippet'', PyStr ''return 2+2''), (''timeout'', PyInt 5)] ''timeout'' (PyInt 60))
           = ProcExited 0 ''4'' ''''"
    and "decode_res env_ok ''4'' = Inr ''4''" and "decode_res env_ok '''' = Inr ''''"
    by (simp_all add: env_ok_def)
  from exit_zero_returns_captured_stdout [OF this, of world0] show ?thesis
    by (simp add: translate_newlines_examples)
qed

text \<open>
  Claim C4. For a request whose \<^verbatim>\<open>code_snippet\<close> is a string, with the temporary file
  created, written, flushed and closed without error, if \<^verbatim>\<open>subprocess.run\<close> returns
  with a return code other than 0 then the response is the one text
  \<^verbatim>\<open>AppleScript execution failed: \<close> followed by the captured standard error of the
  process.
\<close>

theorem nonzero_exit_reports_stderr:
  assumes "map_of args ''code_snippet'' = Some (PyStr s)"
    and "mkstemp_res e = Inr p" and "write_res e = None" and "flush_res e = None"
    and "close_res e = None"
    and "run_res e [''/usr/bin/osascript'', p] (dict_get args ''timeout'' (PyInt 60)) = CompletedProcess rc out err"
    and "rc \<noteq> 0"
  shows "fst (handle_call_tool e ''applescript_execute'' (Some args) w)
           = [TextContent (''AppleScript execution failed: '' @ err)]"
  by (simp add: staged_response [OF assms(1-5)] assms(6,7))

theorem nonzero_exit_reports_stderr_witness:
  "fst (handle_call_tool env_failing ''applescript_execute''
          (Some [(''code_snippet'', PyStr ''retur 2+2'')]) world0)
     = [TextContent ''AppleScript execution failed: syntax error'']"
proof -
  have "map_of [(''code_snippet'', PyStr ''retur 2+2'')] ''code_snippet'' = Some (PyStr ''retur 2+2'')"
    and "mkstemp_res env_failing = Inr ''/tmp/tmpab12.scpt''"
    and "write_res env_failing = None" and "flush_res env_failing = None"
    and "close_res env_failing = None"
    by (simp_all add: env_failing_def env_ok_def)
  moreover have "run_res env_failing [''/usr/bin/osascript'', ''/tmp/tmpab12.scpt'']
           (dict_get [(''code_snippet'', PyStr ''retur 2+2'')] ''timeout'' (PyInt 60))
           = CompletedProcess 1 '''' ''syntax error''"
    and "(1::int) \<noteq> 0"
    by (simp_all add: run_res_examples)
  ultimately have "fst (handle_call_tool env_failing ''applescript_execute''
          (Some [(''code_snippet'', PyStr ''retur 2+2'')]) world0)
     = [TextContent (''AppleScript execution failed: '' @ ''syntax error'')]"
    by (rule nonzero_exit_reports_stderr)
  then show ?thesis
    by simp
qed

text \<open>
  Claim C5. For a request whose \<^verbatim>\<open>code_snippet\<close> is a string, with the temporary file
  created, written, flushed and closed without error, and whose timeout is the integer
  \<open>n\<close> (given, or 60 when the key is absent), if \<^verbatim>\<open>subprocess.run\<close> raises
  \<^verbatim>\<open>TimeoutExpired\<close> then the response is the one text
  \<^verbatim>\<open>AppleScript execution timed out after n seconds\<close>, with \<open>n\<close> in decimal digits.
\<close>

theorem timeout_reports_duration:
  assumes "map_of args ''code_snippet'' = Some (PyStr s)"
    and "mkstemp_res e = Inr p" and "write_res e = None" and "flush_res e = None"
    and "close_res e = None"
    and "dict_get args ''timeout'' (PyInt 60) = PyInt n"
    and "run_res e [''/usr/bin/osascript'', p] (PyInt n) = RunTimeoutExpired"
  shows "fst (handle_call_tool e ''applescript_execute'' (Some args) w)
           = [TextContent (''AppleScript execution timed out after '' @ str_int n @ '' seconds'')]"
  by (simp add: staged_response [OF assms(1-5)] assms(6,7))

theorem timeout_reports_duration_witness:
  "fst (handle_call_tool env_slow ''applescript_execute''
          (Some [(''code_snippet'', PyStr ''delay 30''), (''timeout'', PyInt 5)]) world0)
     = [TextContent ''AppleScript execution timed out after 5 seconds'']"
proof -
  have "map_of [(''code_snippet'', PyStr ''delay 30''), (''timeout'', PyInt 5)] ''code_snippet''
          = Some (PyStr ''delay 30'')"
    and "mkstemp_res env_slow = Inr ''/tmp/tmpab12.scpt''"
    and "write_res env_slow = None" and "flush_res env_slow = None" and "close_res env_slow = None"
    and "dict_get [(''code_snippet'', PyStr ''delay 30''), (''timeout'', PyInt 5)] ''timeout'' (PyInt 60) = PyInt 5"
    by (simp_all add: env_slow_def env_ok_def dict_get_def)
  moreover have "run_res env_slow [''/usr/bin/osascript'', ''/tmp/tmpab12.scpt''] (PyInt 5) = RunTimeoutExpired"
    by (simp add: run_res_examples)
  ultimately have "fst (handle_call_tool env_slow ''applescript_execute''
          (Some [(''code_snippet'', PyStr ''delay 30''), (''timeout'', PyInt 5)]) world0)
     = [TextContent (''AppleScript execution timed out after '' @ str_int 5 @ '' seconds'')]"
    by (rule timeout_reports_duration)
  then show ?thesis
    by (simp add: str_int_examples)
qed



text \<open>
  Claim C7. Called with any operation name other than \<^verbatim>\<open>applescript_execute\<close>, the
  handler returns, as its ordinary result, the one text \<^verbatim>\<open>Error: Unknown tool: <name>\<close>;
  it makes no library call at all (no file is created, no process is started) and
  leaves the world as it was.
\<close>

theorem unknown_tool_rejected:
  "name \<noteq> ''applescript_execute'' \<Longrightarrow>
   handle_call_tool e name arguments w = ([TextContent (''Error: Unknown tool: '' @ name)], w)"
  by (simp add: handle_call_tool_def dispatch_def)

theorem unknown_tool_rejected_witness:
  "''list_files'' \<noteq> ''applescript_execute'' \<and>
   handle_call_tool env_ok ''list_files'' (Some [(''code_snippet'', PyStr ''return 2+2'')]) world0
     = ([TextContent ''Error: Unknown tool: list_files''], world0)"
  using unknown_tool_rejected [of "''list_files''" env_ok "Some [(''code_snippet'', PyStr ''return 2+2'')]" world0]
  by simp

text \<open>
  Claim C8. When \<^verbatim>\<open>arguments\<close> has no key \<^verbatim>\<open>timeout\<close>, every call of
  \<^verbatim>\<open>subprocess.run\<close> the handler makes carries the timeout 60; and when the script is
  a string and is staged without error, the handler makes exactly one such call, on
  \<^verbatim>\<open>/usr/bin/osascript\<close> and the staged file, between the flush and the unlink.
\<close>

theorem default_timeout_is_60:
  assumes "map_of args ''timeout'' = None"
  shows "\<exists>cs. calls (snd (handle_call_tool e name (Some args) w)) = calls w @ cs
     \<and> (\<forall>cmd t. SubprocessRun cmd t \<in> set cs \<longrightarrow> t = PyInt 60)
     \<and> (\<forall>s p. name = ''applescript_execute'' \<and> map_of args ''code_snippet'' = Some (PyStr s) \<and>
              mkstemp_res e = Inr p \<and> write_res e = None \<and> flush_res e = None
            \<longrightarrow> cs = [NamedTemporaryFile, Write p s, Flush p,
                      SubprocessRun [''/usr/bin/osascript'', p] (PyInt 60), Unlink p, Close p])"
proof -
  from assms have dflt: "dict_get args ''timeout'' (PyInt 60) = PyInt 60"
    by (simp add: dict_get_def)
  from dispatch_calls [of e name "Some args" w] dflt
  obtain cs where cs: "calls (snd (handle_call_tool e name (Some args) w)) = calls w @ cs"
    "\<forall>cmd t. SubprocessRun cmd t \<in> set cs \<longrightarrow> t = PyInt 60"
    by (auto simp add: handle_call_tool_calls)
  have "cs = [NamedTemporaryFile, Write p s, Flush p,
              SubprocessRun [''/usr/bin/osascript'', p] (PyInt 60), Unlink p, Close p]"
    if "name = ''applescript_execute''" "map_of args ''code_snippet'' = Some (PyStr s)"
      "mkstemp_res e = Inr p" "write_res e = None" "flush_res e = None" for s p
    using cs(1) that(1) by (simp add: staged_calls [OF that(2-5)] dflt)
  with cs show ?thesis by blast
qed

theorem default_timeout_is_60_witness:
  "calls (snd (handle_call_tool env_ok ''applescript_execute'' (Some [(''code_snippet'', PyStr ''return 2+2'')]) world0))
     = [NamedTemporaryFile, Write ''/tmp/tmpab12.scpt'' ''return 2+2'', Flush ''/tmp/tmpab12.scpt'',
        SubprocessRun [''/usr/bin/osascript'', ''/tmp/tmpab12.scpt''] (PyInt 60),
        Unlink ''/tmp/tmpab12.scpt'', Close ''/tmp/tmpab12.scpt'']"
proof -
  have "map_of [(''code_snippet'', PyStr ''return 2+2'')] ''timeout'' = None"
    by simp
  from default_timeout_is_60 [OF this, of env_ok "''applescript_execute''" world0]
  obtain cs where new: "calls (snd (handle_call_tool env_ok ''applescript_execute''
        (Some [(''code_snippet'', PyStr ''return 2+2'')]) world0)) = calls world0 @ cs"
    and staged: "\<forall>s p. ''applescript_execute'' = ''applescript_execute'' \<and>
        map_of [(''code_snippet'', PyStr ''return 2+2'')] ''code_snippet'' = Some (PyStr s) \<and>
        mkstemp_res env_ok = Inr p \<and> write_res env_ok = None \<and> flush_res env_ok = None
        \<longrightarrow> cs = [NamedTemporaryFile, Write p s, Flush p,
                  SubprocessRun [''/usr/bin/osascript'', p] (PyInt 60), Unlink p, Close p]"
    by blast
  from staged [rule_format, of "''return 2+2''" "''/tmp/tmpab12.scpt''"]
  have "cs = [NamedTemporaryFile, Write ''/tmp/tmpab12.scpt'' ''return 2+2'', Flush ''/tmp/tmpab12.scpt'',
        SubprocessRun [''/usr/bin/osascript'', ''/tmp/tmpab12.scpt''] (PyInt 60),
        Unlink ''/tmp/tmpab12.scpt'', Close ''/tmp/tmpab12.scpt'']"
    by (simp add: env_ok_def)
  with new show ?thesis
    by (simp add: world0_def)
qed

text \<open>
  Claim C10. When \<^verbatim>\<open>arguments\<close> holds a string \<^verbatim>\<open>code_snippet\<close> and any value \<open>v\<close>
  under \<^verbatim>\<open>timeout\<close> (zero, a negative integer, or a value of another type), and the
  script is staged without error, the handler calls \<^verbatim>\<open>subprocess.run\<close> with exactly
  \<open>v\<close> as its timeout. Its response is then the one chosen from the outcome of that
  call when the temporary file is closed without error, and \<^verbatim>\<open>Error: \<close> with the message
  of the close otherwise: nothing inspects \<open>v\<close> beforehand and no text reports it as
  invalid.
\<close>

theorem timeout_passed_unchecked:
  assumes "map_of args ''code_snippet'' = Some (PyStr s)" and "map_of args ''timeout'' = Some v"
    and "mkstemp_res e = Inr p" and "write_res e = None" and "flush_res e = None"
  shows "calls (snd (handle_call_tool e ''applescript_execute'' (Some args) w))
           = calls w @ [NamedTemporaryFile, Write p s, Flush p,
                        SubprocessRun [''/usr/bin/osascript'', p] v, Unlink p, Close p]
       \<and> (close_res e = None \<longrightarrow>
          fst (handle_call_tool e ''applescript_execute'' (Some args) w)
           = (case run_res e [''/usr/bin/osascript'', p] v of
                CompletedProcess rc out err \<Rightarrow>
                  if rc \<noteq> 0 then [TextContent (''AppleScript execution failed: '' @ err)] else [TextContent out]
              | RunTimeoutExpired \<Rightarrow>
                  [TextContent (''AppleScript execution timed out after '' @ py_str v @ '' seconds'')]
              | RunRaised msg \<Rightarrow> [TextContent (''Error executing AppleScript: '' @ msg)]))
       \<and> (\<forall>m. close_res e = Some m \<longrightarrow>
          fst (handle_call_tool e ''applescript_execute'' (Some args) w) = [TextContent (''Error: '' @ m)])"
proof -
  from assms(2) have given: "dict_get args ''timeout'' (PyInt 60) = v"
    by (simp add: dict_get_def)
  show ?thesis
    unfolding staged_result [OF assms(1,3-5)] given by simp
qed

theorem timeout_passed_unchecked_witness:
  "calls (snd (handle_call_tool env_slow ''applescript_execute''
       (Some [(''code_snippet'', PyStr ''return 2+2''), (''timeout'', PyInt (- 5))]) world0))
     = [NamedTemporaryFile, Write ''/tmp/tmpab12.scpt'' ''return 2+2'', Flush ''/tmp/tmpab12.scpt'',
        SubprocessRun [''/usr/bin/osascript'', ''/tmp/tmpab12.scpt''] (PyInt (- 5)),
        Unlink ''/tmp/tmpab12.scpt'', Close ''/tmp/tmpab12.scpt'']
   \<and> fst (handle_call_tool env_slow ''applescript_execute''
       (Some [(''code_snippet'', PyStr ''return 2+2''), (''timeout'', PyInt (- 5))]) world0)
     = [TextContent ''AppleScript execution timed out after -5 seconds'']
   \<and> fst (handle_call_tool env_close_fails ''applescript_execute''
       (Some [(''code_snippet'', PyStr ''return 2+2''), (''timeout'', PyInt 0)]) world0)
     = [TextContent ''Error: [Errno 5] Input/output error'']"
proof -
  have slow: "map_of [(''code_snippet'', PyStr ''return 2+2''), (''timeout'', PyInt (- 5))] ''code_snippet''
        = Some (PyStr ''return 2+2'')"
    "map_of [(''code_snippet'', PyStr ''return 2+2''), (''timeout'', PyInt (- 5))] ''timeout'' = Some (PyInt (- 5))"
    "mkstemp_res env_slow = Inr ''/tmp/tmpab12.scpt''" "write_res env_slow = None" "flush_res env_slow = None"
    by (simp_all add: env_slow_def env_ok_def)
  have slow_close: "close_res env_slow = None"
    by (simp add: env_slow_def env_ok_def)
  have fails: "map_of [(''code_snippet'', PyStr ''return 2+2''), (''timeout'', PyInt 0)] ''code_snippet''
        = Some (PyStr ''return 2+2'')"
    "map_of [(''code_snippet'', PyStr ''return 2+2''), (''timeout'', PyInt 0)] ''timeout'' = Some (PyInt 0)"
    "mkstemp_res env_close_fails = Inr ''/tmp/tmpab12.scpt''" "write_res env_close_fails = None"
    "flush_res env_close_fails = None"
    by (simp_all add: env_close_fails_def env_ok_def)
  have fails_close: "close_res env_close_fails = Some ''[Errno 5] Input/output error''"
    by (simp add: env_close_fails_def env_ok_def)
  from timeout_passed_unchecked [OF slow, of world0] timeout_passed_unchecked [OF fails, of world0]
  show ?thesis
    by (simp add: slow_close fails_close run_res_examples str_int_examples world0_def)
qed

end
